theory Spec2Isabelle
  imports Main "HOL-Library.Multiset"
begin

section \<open>Data model of routes/api/post.js\<close>

text \<open>
  Identifiers (Mongo ObjectIds rendered by \<open>toString()\<close>, \<open>req.user.id\<close>,
  \<open>req.params.postID\<close>) are strings. Dates are millisecond timestamps.
\<close>

type_synonym oid = string

record like =
  like_user :: oid

record comment =
  comment_id :: oid
  comment_user :: oid
  comment_name :: string
  comment_avatar :: string
  comment_text :: string
  comment_date :: int

record post =
  post_id :: oid
  post_text :: string
  post_name :: string
  post_avatar :: string
  post_user :: oid
  post_date :: int
  likes :: "like list"
  comments :: "comment list"

record user =
  user_id :: oid
  user_name :: string
  user_avatar :: string

text \<open>The document store: the Post and the User collection, in insertion order.\<close>

record db =
  posts :: "post list"
  users :: "user list"

subsection \<open>Faults and responses\<close>

text \<open>
  A thrown value: its constructor name and its \<open>kind\<close> property (\<open>undefined\<close> is
  \<open>None\<close>). The handlers only ever inspect \<open>err.kind\<close>.
\<close>

datatype fault = Fault (err_name: string) (err_kind: "string option")

definition TypeError :: fault where
  "TypeError = Fault ''TypeError'' None"

definition ReferenceError :: fault where
  "ReferenceError = Fault ''ReferenceError'' None"

definition CastError_ObjectId :: fault where
  "CastError_ObjectId = Fault ''CastError'' (Some ''ObjectId'')"

datatype body =
    JPost post
  | JPosts "post list"
  | JLikes "like list"
  | JComments "comment list"
  | JMsg string
  | JErrors "(string \<times> string) list"
  | Text string

datatype response = Response (status: nat) (payload: body)

text \<open>
  What a request ends in: a response was sent, the handler finished without sending
  one, or the handler's promise was rejected with a fault thrown outside any \<open>try\<close>.
\<close>

datatype outcome = Responded response | NoResponse | Unhandled fault

subsection \<open>The repository\<close>

text \<open>
  The mongoose models are external. Their results are the contents of the store, except
  where the driver rejects the call: which calls are rejected, and with which fault, is
  a parameter (\<open>env\<close>), as are the identifier mongoose generates for a new document and
  the clock behind \<open>Date.now\<close>.
\<close>

record env =
  findById_fault :: "oid \<Rightarrow> fault option"
  find_fault :: "oid option \<Rightarrow> fault option"
  user_findById_fault :: "oid \<Rightarrow> fault option"
  save_fault :: "post \<Rightarrow> fault option"
  remove_fault :: "post \<Rightarrow> fault option"
  new_oid :: oid
  now :: int

definition Post_findById :: "env \<Rightarrow> db \<Rightarrow> oid \<Rightarrow> fault + post option" where
  "Post_findById e d pid =
     (case findById_fault e pid of
        Some err \<Rightarrow> Inl err
      | None \<Rightarrow> Inr (find (\<lambda>p. post_id p = pid) (posts d)))"

definition User_findById :: "env \<Rightarrow> db \<Rightarrow> oid \<Rightarrow> fault + user option" where
  "User_findById e d uid =
     (case user_findById_fault e uid of
        Some err \<Rightarrow> Inl err
      | None \<Rightarrow> Inr (find (\<lambda>u. user_id u = uid) (users d)))"

text \<open>\<open>Post.find(filter)\<close>: the filter is \<open>{}\<close> (\<open>None\<close>) or \<open>{ user: id }\<close>.\<close>

definition Post_find :: "env \<Rightarrow> db \<Rightarrow> oid option \<Rightarrow> fault + post list" where
  "Post_find e d flt =
     (case find_fault e flt of
        Some err \<Rightarrow> Inl err
      | None \<Rightarrow>
          Inr (case flt of
                 None \<Rightarrow> posts d
               | Some uid \<Rightarrow> filter (\<lambda>p. post_user p = uid) (posts d)))"

text \<open>\<open>.sort({ date: -1 })\<close>: descending by date.\<close>

definition sort_date_desc :: "post list \<Rightarrow> post list" where
  "sort_date_desc ps = sort_key (\<lambda>p. - post_date p) ps"

text \<open>\<open>save()\<close> of a new document inserts it.\<close>

definition save_new :: "env \<Rightarrow> db \<Rightarrow> post \<Rightarrow> fault + db" where
  "save_new e d p =
     (case save_fault e p of
        Some err \<Rightarrow> Inl err
      | None \<Rightarrow> Inr (d\<lparr>posts := posts d @ [p]\<rparr>))"

text \<open>\<open>save()\<close> of a fetched document writes the whole document back under its id.\<close>

definition save :: "env \<Rightarrow> db \<Rightarrow> post \<Rightarrow> fault + db" where
  "save e d p =
     (case save_fault e p of
        Some err \<Rightarrow> Inl err
      | None \<Rightarrow>
          Inr (d\<lparr>posts := map (\<lambda>q. if post_id q = post_id p then p else q) (posts d)\<rparr>))"

definition remove_post :: "env \<Rightarrow> db \<Rightarrow> post \<Rightarrow> fault + db" where
  "remove_post e d p =
     (case remove_fault e p of
        Some err \<Rightarrow> Inl err
      | None \<Rightarrow> Inr (d\<lparr>posts := filter (\<lambda>q. post_id q \<noteq> post_id p) (posts d)\<rparr>))"

subsection \<open>JavaScript array operations used by the handlers\<close>

text \<open>A string is truthy iff it is not empty.\<close>

definition truthy :: "string \<Rightarrow> bool" where
  "truthy s = (s \<noteq> [])"

text \<open>\<open>Array.prototype.indexOf\<close>: the first position of the element, or -1.\<close>

fun indexOf :: "'a \<Rightarrow> 'a list \<Rightarrow> int" where
  "indexOf x [] = - 1"
| "indexOf x (y # ys) =
     (if x = y then 0
      else (let i = indexOf x ys in if i < 0 then - 1 else i + 1))"

text \<open>\<open>indexOf\<close> of the result of \<open>find\<close>, which is \<open>undefined\<close> when nothing matched.\<close>

definition indexOf_found :: "'a option \<Rightarrow> 'a list \<Rightarrow> int" where
  "indexOf_found r xs = (case r of None \<Rightarrow> - 1 | Some x \<Rightarrow> indexOf x xs)"

text \<open>
  \<open>splice(start, 1)\<close>: a negative start counts from the end (not below 0), a start
  beyond the end is the end; at most one element is removed.
\<close>

definition splice1 :: "int \<Rightarrow> 'a list \<Rightarrow> 'a list" where
  "splice1 start xs =
     (let n = int (length xs);
          s = (if start < 0 then max (n + start) 0 else min start n)
      in take (nat s) xs @ drop (nat s + 1) xs)"

section \<open>The handlers\<close>

text \<open>
  Each handler is the body of its \<open>try\<close> block, returning the fault thrown or the
  response sent together with the store, and its \<open>catch\<close> block.
\<close>

definition handle ::
  "(fault + response) \<times> db \<Rightarrow> (fault \<Rightarrow> outcome) \<Rightarrow> outcome \<times> db" where
  "handle r catch =
     (case r of
        (Inl err, d) \<Rightarrow> (catch err, d)
      | (Inr resp, d) \<Rightarrow> (Responded resp, d))"

definition server_error :: "fault \<Rightarrow> outcome" where
  "server_error err = Responded (Response 500 (Text ''Server Error''))"

subsection \<open>PUT /like/:postID\<close>

definition like_post_try :: "env \<Rightarrow> db \<Rightarrow> oid \<Rightarrow> oid \<Rightarrow> (fault + response) \<times> db" where
  "like_post_try e d postID uid =
     (case Post_findById e d postID of
        Inl err \<Rightarrow> (Inl err, d)
      | Inr None \<Rightarrow> (Inl TypeError, d)
      | Inr (Some p) \<Rightarrow>
          if length (filter (\<lambda>l. like_user l = uid) (likes p)) > 0
          then (Inr (Response 400 (JMsg ''Post already liked'')), d)
          else
            (let p' = p\<lparr>likes := \<lparr>like_user = uid\<rparr> # likes p\<rparr>
             in case save e d p' of
                  Inl err \<Rightarrow> (Inl err, d)
                | Inr d' \<Rightarrow> (Inr (Response 200 (JLikes (likes p'))), d')))"

definition like_post :: "env \<Rightarrow> db \<Rightarrow> oid \<Rightarrow> oid \<Rightarrow> outcome \<times> db" where
  "like_post e d postID uid = handle (like_post_try e d postID uid) server_error"

subsection \<open>PUT /unlike/:postID\<close>

definition unlike_post_try :: "env \<Rightarrow> db \<Rightarrow> oid \<Rightarrow> oid \<Rightarrow> (fault + response) \<times> db" where
  "unlike_post_try e d postID uid =
     (case Post_findById e d postID of
        Inl err \<Rightarrow> (Inl err, d)
      | Inr None \<Rightarrow> (Inl TypeError, d)
      | Inr (Some p) \<Rightarrow>
          if length (filter (\<lambda>l. like_user l = uid) (likes p)) = 0
          then (Inr (Response 400
                  (JMsg ''You must, first, like the post before you can remove it'')), d)
          else
            (let userLike = find (\<lambda>likedId. truthy uid) (likes p);
                 likeIndex = indexOf_found userLike (likes p);
                 p' = p\<lparr>likes := splice1 likeIndex (likes p)\<rparr>
             in case save e d p' of
                  Inl err \<Rightarrow> (Inl err, d)
                | Inr d' \<Rightarrow> (Inr (Response 200 (JLikes (likes p'))), d')))"

definition unlike_post :: "env \<Rightarrow> db \<Rightarrow> oid \<Rightarrow> oid \<Rightarrow> outcome \<times> db" where
  "unlike_post e d postID uid = handle (unlike_post_try e d postID uid) server_error"

subsection \<open>POST /\<close>

text \<open>
  Modelled from the spec: the Post schema (models/Post.js) is not part of the sources
  at hand. The spec's data model gives a new Post an identifier assigned at creation,
  a \<open>date\<close> that defaults to the creation time, and empty \<open>likes\<close> and \<open>comments\<close>.
\<close>

definition new_Post :: "env \<Rightarrow> string \<Rightarrow> string \<Rightarrow> string \<Rightarrow> oid \<Rightarrow> post" where
  "new_Post e text name avatar uid =
     \<lparr> post_id = new_oid e, post_text = text, post_name = name, post_avatar = avatar,
       post_user = uid, post_date = now e, likes = [], comments = [] \<rparr>"

definition create_post_try :: "env \<Rightarrow> db \<Rightarrow> oid \<Rightarrow> string \<Rightarrow> (fault + response) \<times> db" where
  "create_post_try e d uid text =
     (case User_findById e d uid of
        Inl err \<Rightarrow> (Inl err, d)
      | Inr None \<Rightarrow> (Inl TypeError, d)
      | Inr (Some u) \<Rightarrow>
          (let newPost = new_Post e text (user_name u) (user_avatar u) uid
           in case save_new e d newPost of
                Inl err \<Rightarrow> (Inl err, d)
              | Inr d' \<Rightarrow> (Inr (Response 200 (JPost newPost)), d')))"

text \<open>The validation gate \<open>check('text').not().isEmpty()\<close> is read first.\<close>

definition create_post :: "env \<Rightarrow> db \<Rightarrow> oid \<Rightarrow> string \<Rightarrow> outcome \<times> db" where
  "create_post e d uid text =
     (if text = []
      then (Responded (Response 400
              (JErrors [(''text'', ''Text is required to create a post.'')])), d)
      else handle (create_post_try e d uid text) server_error)"

subsection \<open>GET /\<close>

definition list_all_posts_try :: "env \<Rightarrow> db \<Rightarrow> (fault + response) \<times> db" where
  "list_all_posts_try e d =
     (case Post_find e d None of
        Inl err \<Rightarrow> (Inl err, d)
      | Inr ps \<Rightarrow> (Inr (Response 200 (JPosts (sort_date_desc ps))), d))"

definition list_all_posts :: "env \<Rightarrow> db \<Rightarrow> outcome \<times> db" where
  "list_all_posts e d = handle (list_all_posts_try e d) server_error"

subsection \<open>GET /myposts/:userID\<close>

text \<open>
  The catch block of the two \<open>/myposts\<close> handlers answers only when
  \<open>err.kind === 'ObjectId'\<close>; it has no other branch.
\<close>

definition post_not_found_catch :: "fault \<Rightarrow> outcome" where
  "post_not_found_catch err =
     (if err_kind err = Some ''ObjectId''
      then Responded (Response 404 (JMsg ''Post not found''))
      else NoResponse)"

text \<open>The test \<open>!myPosts\<close> is on an array, which is truthy even when empty.\<close>

definition list_posts_by_owner_try :: "env \<Rightarrow> db \<Rightarrow> oid \<Rightarrow> (fault + response) \<times> db" where
  "list_posts_by_owner_try e d userID =
     (case Post_find e d (Some userID) of
        Inl err \<Rightarrow> (Inl err, d)
      | Inr myPosts \<Rightarrow> (Inr (Response 200 (JPosts myPosts)), d))"

definition list_posts_by_owner :: "env \<Rightarrow> db \<Rightarrow> oid \<Rightarrow> outcome \<times> db" where
  "list_posts_by_owner e d userID =
     handle (list_posts_by_owner_try e d userID) post_not_found_catch"

subsection \<open>DELETE /myposts/:postID\<close>

text \<open>
  \<open>post.user\<close> is read first (a TypeError when \<open>post\<close> is \<open>null\<close>); the test \<open>!post\<close>
  comes after it, as in the source.
\<close>

definition delete_post_try :: "env \<Rightarrow> db \<Rightarrow> oid \<Rightarrow> oid \<Rightarrow> (fault + response) \<times> db" where
  "delete_post_try e d postID uid =
     (case Post_findById e d postID of
        Inl err \<Rightarrow> (Inl err, d)
      | Inr found \<Rightarrow>
          (case found of
             None \<Rightarrow> (Inl TypeError, d)
           | Some p \<Rightarrow>
               if post_user p \<noteq> uid
               then (Inr (Response 401 (JMsg ''User not authorized'')), d)
               else if found = None
               then (Inr (Response 404 (JMsg ''Post not found'')), d)
               else
                 (case remove_post e d p of
                    Inl err \<Rightarrow> (Inl err, d)
                  | Inr d' \<Rightarrow> (Inr (Response 200 (JMsg ''Post removed'')), d'))))"

definition delete_post :: "env \<Rightarrow> db \<Rightarrow> oid \<Rightarrow> oid \<Rightarrow> outcome \<times> db" where
  "delete_post e d postID uid =
     handle (delete_post_try e d postID uid) post_not_found_catch"

subsection \<open>POST /comment/:postID\<close>

text \<open>
  Both documents are fetched before either is used; \<open>user.name\<close> is read before
  \<open>post.comments\<close>. The comment's identifier and date are given by mongoose when the
  object is put into the array.
\<close>

definition add_comment_try ::
  "env \<Rightarrow> db \<Rightarrow> oid \<Rightarrow> oid \<Rightarrow> string \<Rightarrow> (fault + response) \<times> db" where
  "add_comment_try e d postID uid text =
     (case Post_findById e d postID of
        Inl err \<Rightarrow> (Inl err, d)
      | Inr found \<Rightarrow>
          (case User_findById e d uid of
             Inl err \<Rightarrow> (Inl err, d)
           | Inr None \<Rightarrow> (Inl TypeError, d)
           | Inr (Some u) \<Rightarrow>
               (case found of
                  None \<Rightarrow> (Inl TypeError, d)
                | Some p \<Rightarrow>
                    (let newComment =
                           \<lparr> comment_id = new_oid e, comment_user = uid,
                             comment_name = user_name u, comment_avatar = user_avatar u,
                             comment_text = text, comment_date = now e \<rparr>;
                         p' = p\<lparr>comments := newComment # comments p\<rparr>
                     in case save e d p' of
                          Inl err \<Rightarrow> (Inl err, d)
                        | Inr d' \<Rightarrow> (Inr (Response 200 (JComments (comments p'))), d')))))"

definition add_comment :: "env \<Rightarrow> db \<Rightarrow> oid \<Rightarrow> oid \<Rightarrow> string \<Rightarrow> outcome \<times> db" where
  "add_comment e d postID uid text =
     (if text = []
      then (Responded (Response 400 (JErrors [(''text'', ''Text is required'')])), d)
      else handle (add_comment_try e d postID uid text) server_error)"

subsection \<open>DELETE /delete_comment/:postID/:comment_id\<close>

text \<open>
  The catch block tests \<open>err.kind === 'ObjectId' || err.value === postID\<close>. No variable
  \<open>postID\<close> is declared, so evaluating the second operand throws a ReferenceError out
  of the catch block.
\<close>

definition delete_comment_catch :: "fault \<Rightarrow> outcome" where
  "delete_comment_catch err =
     (if err_kind err = Some ''ObjectId''
      then Responded (Response 404 (JMsg ''Comment does not exist''))
      else Unhandled ReferenceError)"

definition delete_comment_try ::
  "env \<Rightarrow> db \<Rightarrow> oid \<Rightarrow> oid \<Rightarrow> oid \<Rightarrow> (fault + response) \<times> db" where
  "delete_comment_try e d postID commentId uid =
     (case Post_findById e d postID of
        Inl err \<Rightarrow> (Inl err, d)
      | Inr None \<Rightarrow> (Inl TypeError, d)
      | Inr (Some p) \<Rightarrow>
          (let userComment = find (\<lambda>c. comment_id c = commentId) (comments p)
           in case User_findById e d uid of
                Inl err \<Rightarrow> (Inl err, d)
              | Inr usr \<Rightarrow>
                  (case userComment of
                     None \<Rightarrow> (Inr (Response 404 (JMsg ''Comment does not exist'')), d)
                   | Some c \<Rightarrow>
                       (case usr of
                          None \<Rightarrow> (Inl TypeError, d)
                        | Some u \<Rightarrow>
                            if post_user p \<noteq> user_id u \<and> comment_user c \<noteq> uid
                            then (Inr (Response 401 (JMsg ''User not authorized'')), d)
                            else
                              (let commentIndex = indexOf c (comments p);
                                   p' = p\<lparr>comments := splice1 commentIndex (comments p)\<rparr>
                               in case save e d p' of
                                    Inl err \<Rightarrow> (Inl err, d)
                                  | Inr d' \<Rightarrow>
                                      (Inr (Response 200 (JComments (comments p'))), d'))))))"

definition delete_comment :: "env \<Rightarrow> db \<Rightarrow> oid \<Rightarrow> oid \<Rightarrow> oid \<Rightarrow> outcome \<times> db" where
  "delete_comment e d postID commentId uid =
     handle (delete_comment_try e d postID commentId uid) delete_comment_catch"

subsection \<open>The likes invariant\<close>

definition likes_unique :: "db \<Rightarrow> bool" where
  "likes_unique d = (\<forall>p \<in> set (posts d). distinct (map like_user (likes p)))"

section \<open>Concrete inputs\<close>

text \<open>An environment in which the driver rejects nothing.\<close>

definition env_ok :: env where
  "env_ok = \<lparr> findById_fault = (\<lambda>_. None), find_fault = (\<lambda>_. None),
              user_findById_fault = (\<lambda>_. None), save_fault = (\<lambda>_. None),
              remove_fault = (\<lambda>_. None), new_oid = ''c9'', now = 50 \<rparr>"

definition alice :: user where
  "alice = \<lparr> user_id = ''a1'', user_name = ''Alice'', user_avatar = ''alice.png'' \<rparr>"

definition bob :: user where
  "bob = \<lparr> user_id = ''b2'', user_name = ''Bob'', user_avatar = ''bob.png'' \<rparr>"

definition carol :: user where
  "carol = \<lparr> user_id = ''c3'', user_name = ''Carol'', user_avatar = ''carol.png'' \<rparr>"

definition post1 :: post where
  "post1 = \<lparr> post_id = ''p1'', post_text = ''hello'', post_name = ''Alice'',
             post_avatar = ''alice.png'', post_user = ''a1'', post_date = 10,
             likes = [\<lparr>like_user = ''b2''\<rparr>, \<lparr>like_user = ''a1''\<rparr>],
             comments = [\<lparr> comment_id = ''c1'', comment_user = ''b2'',
                           comment_name = ''Bob'', comment_avatar = ''bob.png'',
                           comment_text = ''hi'', comment_date = 12 \<rparr>] \<rparr>"

definition post2 :: post where
  "post2 = \<lparr> post_id = ''p2'', post_text = ''later'', post_name = ''Bob'',
             post_avatar = ''bob.png'', post_user = ''b2'', post_date = 20,
             likes = [], comments = [] \<rparr>"

definition db1 :: db where
  "db1 = \<lparr> posts = [post1, post2], users = [alice, bob, carol] \<rparr>"

definition env_cast :: env where
  "env_cast = \<lparr> findById_fault = (\<lambda>_. Some CastError_ObjectId),
                find_fault = (\<lambda>_. Some CastError_ObjectId),
                user_findById_fault = (\<lambda>_. Some CastError_ObjectId),
                save_fault = (\<lambda>_. None), remove_fault = (\<lambda>_. None),
                new_oid = ''c9'', now = 50 \<rparr>"

section \<open>Auxiliary facts\<close>

lemma snd_handle: "snd (handle r c) = snd r"
  by (simp add: handle_def split: prod.splits sum.splits)

lemma fst_handle_Inl: "fst r = Inl err \<Longrightarrow> fst (handle r c) = c err"
  by (cases r) (simp add: handle_def)

lemma find_post_id: "find (\<lambda>q. post_id q = pid) ps = Some p \<Longrightarrow> post_id p = pid \<and> p \<in> set ps"
  by (auto simp: find_Some_iff)

lemma find_after_replace:
  "find (\<lambda>q. post_id q = post_id p) (map (\<lambda>q. if post_id q = post_id p then p else q) ps) =
     (if \<exists>q \<in> set ps. post_id q = post_id p then Some p else None)"
  by (induction ps) auto

lemma findById_missing:
  "findById_fault e postID = None \<Longrightarrow> postID \<notin> post_id ` set (posts d) \<Longrightarrow>
     Post_findById e d postID = Inr None"
  by (auto simp: Post_findById_def find_None_iff)

lemma findById_present:
  "findById_fault e postID = None \<Longrightarrow> find (\<lambda>p. post_id p = postID) (posts d) = Some p \<Longrightarrow>
     Post_findById e d postID = Inr (Some p)"
  by (simp add: Post_findById_def)

lemma User_findById_present:
  "user_findById_fault e uid = None \<Longrightarrow> find (\<lambda>u. user_id u = uid) (users d) = Some u \<Longrightarrow>
     User_findById e d uid = Inr (Some u)"
  by (simp add: User_findById_def)

lemma splice1_front: "splice1 0 (x # xs) = xs"
  by (simp add: splice1_def)

lemma distinct_splice1:
  assumes "distinct (map f xs)"
  shows "distinct (map f (splice1 i xs))"
proof -
  have "distinct (take m (map f xs) @ drop (m + 1) (map f xs))" for m
    using assms set_take_disj_set_drop_if_distinct [of "map f xs" m "m + 1"]
    by (simp del: map_append)
  then show ?thesis
    by (simp add: splice1_def Let_def take_map drop_map)
qed

lemma likes_unique_save:
  assumes "likes_unique d" and "distinct (map like_user (likes p'))" and "save e d p' = Inr d'"
  shows "likes_unique d'"
proof -
  from assms(3) have "posts d' = map (\<lambda>q. if post_id q = post_id p' then p' else q) (posts d)"
    by (auto simp: save_def split: option.splits)
  with assms(1,2) show ?thesis
    by (auto simp: likes_unique_def)
qed

lemma like_post_try_unique:
  assumes "likes_unique d"
  shows "likes_unique (snd (like_post_try e d postID uid))"
proof (cases "Post_findById e d postID")
  case (Inl err)
  with assms show ?thesis by (simp add: like_post_try_def)
next
  case (Inr found)
  show ?thesis
  proof (cases found)
    case None
    with Inr assms show ?thesis by (simp add: like_post_try_def)
  next
    case (Some p)
    with Inr have pin: "p \<in> set (posts d)"
      by (auto simp: Post_findById_def find_Some_iff split: option.splits)
    with assms have dp: "distinct (map like_user (likes p))"
      by (simp add: likes_unique_def)
    show ?thesis
    proof (cases "length (filter (\<lambda>l. like_user l = uid) (likes p)) > 0")
      case True
      with Inr Some assms show ?thesis by (simp add: like_post_try_def)
    next
      case False
      then have "uid \<notin> like_user ` set (likes p)"
        by (auto simp: filter_empty_conv)
      with dp have dp': "distinct (map like_user (likes (p\<lparr>likes := \<lparr>like_user = uid\<rparr> # likes p\<rparr>)))"
        by simp
      show ?thesis
      proof (cases "save e d (p\<lparr>likes := \<lparr>like_user = uid\<rparr> # likes p\<rparr>)")
        case (Inl err)
        with Inr Some False assms show ?thesis by (simp add: like_post_try_def)
      next
        case (Inr d')
        with likes_unique_save [OF assms dp' Inr] \<open>Post_findById e d postID = Inr found\<close> Some False
        show ?thesis by (simp add: like_post_try_def)
      qed
    qed
  qed
qed

lemma unlike_post_try_unique:
  assumes "likes_unique d"
  shows "likes_unique (snd (unlike_post_try e d postID uid))"
proof (cases "Post_findById e d postID")
  case (Inl err)
  with assms show ?thesis by (simp add: unlike_post_try_def)
next
  case (Inr found)
  show ?thesis
  proof (cases found)
    case None
    with Inr assms show ?thesis by (simp add: unlike_post_try_def)
  next
    case (Some p)
    with Inr have pin: "p \<in> set (posts d)"
      by (auto simp: Post_findById_def find_Some_iff split: option.splits)
    with assms have dp: "distinct (map like_user (likes p))"
      by (simp add: likes_unique_def)
    have dp': "distinct (map like_user (likes (p\<lparr>likes := splice1 i (likes p)\<rparr>)))" for i
      using distinct_splice1 [OF dp] by simp
    show ?thesis
      using Inr Some assms likes_unique_save [OF assms dp']
      by (auto simp: unlike_post_try_def Let_def split: sum.splits)
  qed
qed

lemma like_post_fresh:
  assumes "findById_fault e postID = None"
    and "find (\<lambda>q. post_id q = postID) (posts d) = Some p"
    and "uid \<notin> like_user ` set (likes p)"
    and "save_fault e (p\<lparr>likes := \<lparr>like_user = uid\<rparr> # likes p\<rparr>) = None"
  shows "like_post e d postID uid =
           (Responded (Response 200 (JLikes (\<lparr>like_user = uid\<rparr> # likes p))),
            d\<lparr>posts := map (\<lambda>q. if post_id q = postID
                                 then p\<lparr>likes := \<lparr>like_user = uid\<rparr> # likes p\<rparr> else q)
                            (posts d)\<rparr>)"
proof -
  have pid: "post_id p = postID"
    using find_post_id [OF assms(2)] by simp
  have "filter (\<lambda>l. like_user l = uid) (likes p) = []"
    using assms(3) by (auto simp: filter_empty_conv)
  then show ?thesis
    using findById_present [OF assms(1,2)] assms(4) pid
    by (simp add: like_post_def like_post_try_def handle_def save_def Let_def)
qed

lemma like_post_already:
  assumes "findById_fault e postID = None"
    and "find (\<lambda>q. post_id q = postID) (posts d) = Some p"
    and "uid \<in> like_user ` set (likes p)"
  shows "like_post e d postID uid =
           (Responded (Response 400 (JMsg ''Post already liked'')), d)"
proof -
  have "filter (\<lambda>l. like_user l = uid) (likes p) \<noteq> []"
    using assms(3) by (auto simp: filter_empty_conv)
  then show ?thesis
    using findById_present [OF assms(1,2)]
    by (simp add: like_post_def like_post_try_def handle_def)
qed

lemma unlike_post_front:
  assumes "findById_fault e postID = None"
    and "find (\<lambda>q. post_id q = postID) (posts d) = Some p"
    and "likes p = \<lparr>like_user = uid\<rparr> # ls"
    and "uid \<noteq> []"
    and "save_fault e (p\<lparr>likes := ls\<rparr>) = None"
  shows "unlike_post e d postID uid =
           (Responded (Response 200 (JLikes ls)),
            d\<lparr>posts := map (\<lambda>q. if post_id q = postID then p\<lparr>likes := ls\<rparr> else q)
                            (posts d)\<rparr>)"
proof -
  have pid: "post_id p = postID"
    using find_post_id [OF assms(2)] by simp
  show ?thesis
    using findById_present [OF assms(1,2)] assms(3,4,5) pid
    by (simp add: unlike_post_def unlike_post_try_def handle_def save_def Let_def
        truthy_def indexOf_found_def splice1_front)
qed

lemma sort_date_desc_sorted:
  "sorted_wrt (\<lambda>a b. post_date b \<le> post_date a) (sort_date_desc ps)"
proof -
  have "sorted (map (\<lambda>p. - post_date p) (sort_key (\<lambda>p. - post_date p) ps))"
    by (rule sorted_sort_key)
  then show ?thesis
    by (simp add: sort_date_desc_def sorted_map)
qed

section \<open>Unlike removes the first like\<close>

text \<open>
  C1. The unlike operation is to remove the like entry of the acting user and keep the
  likes of all other users. On a post liked by a1 and then by b2 (newest first:
  b2, a1), unlike by a1 answers 200 with a likes sequence that still holds a1's own
  like and has lost b2's: the predicate given to \<open>find\<close> returns the acting id, which is
  truthy for every element, so position 0 is removed.
\<close>

theorem unlike_removes_first_not_own:
  "unlike_post env_ok db1 ''p1'' ''a1'' =
     (Responded (Response 200 (JLikes [\<lparr>like_user = ''a1''\<rparr>])),
      db1\<lparr>posts := [post1\<lparr>likes := [\<lparr>like_user = ''a1''\<rparr>]\<rparr>, post2]\<rparr>)"
  by (simp add: unlike_post_def unlike_post_try_def handle_def Post_findById_def
      save_def env_ok_def db1_def post1_def post2_def truthy_def indexOf_found_def
      splice1_def Let_def)

section \<open>Delete post: a missing post\<close>

text \<open>
  C2. In the delete-post handler, when the post id is accepted by the driver and no
  stored post has it, the ownership comparison reads \<open>post.user\<close> of \<open>null\<close> and
  throws before the test \<open>!post\<close>: the try block ends in a TypeError, never in the 404
  branch. The catch block only answers faults of kind ObjectId, so no response is sent
  and the store is unchanged.
\<close>

theorem delete_post_missing_post_faults:
  assumes "findById_fault e postID = None"
    and "postID \<notin> post_id ` set (posts d)"
  shows "delete_post_try e d postID uid = (Inl TypeError, d) \<and>
         delete_post e d postID uid = (NoResponse, d)"
proof -
  have t: "delete_post_try e d postID uid = (Inl TypeError, d)"
    using findById_missing [OF assms] by (simp add: delete_post_try_def)
  have "post_not_found_catch TypeError = NoResponse"
    by (simp add: post_not_found_catch_def TypeError_def)
  with t show ?thesis
    by (simp add: delete_post_def handle_def)
qed

theorem delete_post_missing_post_faults_witness:
  "findById_fault env_ok ''p7'' = None \<and> ''p7'' \<notin> post_id ` set (posts db1) \<and>
   delete_post_try env_ok db1 ''p7'' ''a1'' = (Inl TypeError, db1) \<and>
   delete_post env_ok db1 ''p7'' ''a1'' = (NoResponse, db1)"
proof -
  have h1: "findById_fault env_ok ''p7'' = None"
    by (simp add: env_ok_def)
  have h2: "''p7'' \<notin> post_id ` set (posts db1)"
    by (simp add: db1_def post1_def post2_def)
  show ?thesis
    using h1 h2 delete_post_missing_post_faults [OF h1 h2, of "''a1''"] by simp
qed

section \<open>What the catch blocks answer\<close>

text \<open>
  C3 (as amended). A fault caught by the create-post, list-all-posts, like, unlike or
  add-comment handler is answered with the generic 500 response whatever its kind,
  the malformed-identifier kind included. A malformed-identifier fault (kind ObjectId)
  caught by the list-posts-by-owner, delete-post or delete-comment handler is answered
  with 404.
\<close>

theorem caught_fault_response:
  "(text \<noteq> [] \<and> fst (create_post_try e d uid text) = Inl err \<longrightarrow>
      fst (create_post e d uid text) = Responded (Response 500 (Text ''Server Error''))) \<and>
   (fst (list_all_posts_try e d) = Inl err \<longrightarrow>
      fst (list_all_posts e d) = Responded (Response 500 (Text ''Server Error''))) \<and>
   (fst (like_post_try e d postID uid) = Inl err \<longrightarrow>
      fst (like_post e d postID uid) = Responded (Response 500 (Text ''Server Error''))) \<and>
   (fst (unlike_post_try e d postID uid) = Inl err \<longrightarrow>
      fst (unlike_post e d postID uid) = Responded (Response 500 (Text ''Server Error''))) \<and>
   (text \<noteq> [] \<and> fst (add_comment_try e d postID uid text) = Inl err \<longrightarrow>
      fst (add_comment e d postID uid text) =
        Responded (Response 500 (Text ''Server Error''))) \<and>
   (fst (list_posts_by_owner_try e d userID) = Inl err \<and> err_kind err = Some ''ObjectId'' \<longrightarrow>
      fst (list_posts_by_owner e d userID) =
        Responded (Response 404 (JMsg ''Post not found''))) \<and>
   (fst (delete_post_try e d postID uid) = Inl err \<and> err_kind err = Some ''ObjectId'' \<longrightarrow>
      fst (delete_post e d postID uid) =
        Responded (Response 404 (JMsg ''Post not found''))) \<and>
   (fst (delete_comment_try e d postID commentId uid) = Inl err \<and>
      err_kind err = Some ''ObjectId'' \<longrightarrow>
      fst (delete_comment e d postID commentId uid) =
        Responded (Response 404 (JMsg ''Comment does not exist'')))"
  by (simp add: create_post_def list_all_posts_def like_post_def unlike_post_def
      add_comment_def list_posts_by_owner_def delete_post_def delete_comment_def
      fst_handle_Inl server_error_def post_not_found_catch_def delete_comment_catch_def)

theorem caught_fault_response_witness:
  "fst (create_post_try env_cast db1 ''a1'' ''hello'') = Inl CastError_ObjectId \<and>
   fst (create_post env_cast db1 ''a1'' ''hello'') =
     Responded (Response 500 (Text ''Server Error'')) \<and>
   fst (list_all_posts_try env_cast db1) = Inl CastError_ObjectId \<and>
   fst (list_all_posts env_cast db1) = Responded (Response 500 (Text ''Server Error'')) \<and>
   fst (like_post_try env_cast db1 ''zz'' ''a1'') = Inl CastError_ObjectId \<and>
   fst (like_post env_cast db1 ''zz'' ''a1'') =
     Responded (Response 500 (Text ''Server Error'')) \<and>
   fst (unlike_post_try env_cast db1 ''zz'' ''a1'') = Inl CastError_ObjectId \<and>
   fst (unlike_post env_cast db1 ''zz'' ''a1'') =
     Responded (Response 500 (Text ''Server Error'')) \<and>
   fst (add_comment_try env_cast db1 ''zz'' ''a1'' ''hello'') = Inl CastError_ObjectId \<and>
   fst (add_comment env_cast db1 ''zz'' ''a1'' ''hello'') =
     Responded (Response 500 (Text ''Server Error'')) \<and>
   fst (list_posts_by_owner_try env_cast db1 ''zz'') = Inl CastError_ObjectId \<and>
   fst (list_posts_by_owner env_cast db1 ''zz'') =
     Responded (Response 404 (JMsg ''Post not found'')) \<and>
   fst (delete_post_try env_cast db1 ''zz'' ''a1'') = Inl CastError_ObjectId \<and>
   fst (delete_post env_cast db1 ''zz'' ''a1'') =
     Responded (Response 404 (JMsg ''Post not found'')) \<and>
   fst (delete_comment_try env_cast db1 ''zz'' ''c1'' ''a1'') = Inl CastError_ObjectId \<and>
   fst (delete_comment env_cast db1 ''zz'' ''c1'' ''a1'') =
     Responded (Response 404 (JMsg ''Comment does not exist''))"
proof -
  have k: "err_kind CastError_ObjectId = Some ''ObjectId''"
    by (simp add: CastError_ObjectId_def)
  have t: "''hello'' \<noteq> []" by simp
  have h1: "fst (create_post_try env_cast db1 ''a1'' ''hello'') = Inl CastError_ObjectId"
    by (simp add: create_post_try_def User_findById_def env_cast_def)
  have h2: "fst (list_all_posts_try env_cast db1) = Inl CastError_ObjectId"
    by (simp add: list_all_posts_try_def Post_find_def env_cast_def)
  have h3: "fst (like_post_try env_cast db1 ''zz'' ''a1'') = Inl CastError_ObjectId"
    by (simp add: like_post_try_def Post_findById_def env_cast_def)
  have h4: "fst (unlike_post_try env_cast db1 ''zz'' ''a1'') = Inl CastError_ObjectId"
    by (simp add: unlike_post_try_def Post_findById_def env_cast_def)
  have h5: "fst (add_comment_try env_cast db1 ''zz'' ''a1'' ''hello'') = Inl CastError_ObjectId"
    by (simp add: add_comment_try_def Post_findById_def env_cast_def)
  have h6: "fst (list_posts_by_owner_try env_cast db1 ''zz'') = Inl CastError_ObjectId"
    by (simp add: list_posts_by_owner_try_def Post_find_def env_cast_def)
  have h7: "fst (delete_post_try env_cast db1 ''zz'' ''a1'') = Inl CastError_ObjectId"
    by (simp add: delete_post_try_def Post_findById_def env_cast_def)
  have h8: "fst (delete_comment_try env_cast db1 ''zz'' ''c1'' ''a1'') = Inl CastError_ObjectId"
    by (simp add: delete_comment_try_def Post_findById_def env_cast_def)
  show ?thesis
    using k t h1 h2 h3 h4 h5 h6 h7 h8
      caught_fault_response [of "''hello''" env_cast db1 "''a1''" CastError_ObjectId
        "''zz''" "''zz''" "''c1''"]
    by simp
qed

text \<open>
  C3 as stated fails: the like handler answers a malformed-identifier fault raised by
  \<open>Post.findById\<close> with 500, not with 404.
\<close>

theorem like_malformed_id_is_500:
  "like_post_try env_cast db1 ''zz'' ''a1'' = (Inl CastError_ObjectId, db1) \<and>
   err_kind CastError_ObjectId = Some ''ObjectId'' \<and>
   like_post env_cast db1 ''zz'' ''a1'' =
     (Responded (Response 500 (Text ''Server Error'')), db1)"
  by (simp add: like_post_def like_post_try_def handle_def server_error_def
      Post_findById_def env_cast_def CastError_ObjectId_def)

section \<open>Like, then unlike\<close>

text \<open>
  C4. For a stored post and an acting user (a non-empty id) with no like on it, when
  the driver rejects neither the lookups nor the saves, like followed by unlike by
  that user answers 200 twice, the second time with the likes sequence as it was before
  the like, and the stored post is again the post as it was: same likes, same order.
\<close>

theorem like_then_unlike_restores_likes:
  assumes "findById_fault e postID = None"
    and "\<forall>q. save_fault e q = None"
    and "find (\<lambda>q. post_id q = postID) (posts d) = Some p"
    and "uid \<notin> like_user ` set (likes p)"
    and "uid \<noteq> []"
  shows "\<exists>d1 d2.
           like_post e d postID uid =
             (Responded (Response 200 (JLikes (\<lparr>like_user = uid\<rparr> # likes p))), d1) \<and>
           unlike_post e d1 postID uid = (Responded (Response 200 (JLikes (likes p))), d2) \<and>
           Post_findById e d2 postID = Inr (Some p)"
proof -
  define p1 where "p1 = p\<lparr>likes := \<lparr>like_user = uid\<rparr> # likes p\<rparr>"
  define d1 where
    "d1 = d\<lparr>posts := map (\<lambda>q. if post_id q = postID then p1 else q) (posts d)\<rparr>"
  define d2 where
    "d2 = d1\<lparr>posts := map (\<lambda>q. if post_id q = postID then p else q) (posts d1)\<rparr>"
  have pid: "post_id p = postID" and pin: "p \<in> set (posts d)"
    using find_post_id [OF assms(3)] by simp_all
  have pid1: "post_id p1 = postID"
    using pid by (simp add: p1_def)
  have sf: "save_fault e q = None" for q
    using assms(2) by simp
  have first: "like_post e d postID uid =
      (Responded (Response 200 (JLikes (\<lparr>like_user = uid\<rparr> # likes p))), d1)"
    using like_post_fresh [OF assms(1,3,4) sf] by (simp add: d1_def p1_def)
  have ex: "\<exists>q \<in> set (posts d). post_id q = post_id p1"
    using pin pid pid1 by auto
  have f1: "find (\<lambda>q. post_id q = postID) (posts d1) = Some p1"
    using find_after_replace [of p1 "posts d"] ex pid1 by (simp add: d1_def)
  have restored: "p1\<lparr>likes := likes p\<rparr> = p"
    by (simp add: p1_def)
  have second: "unlike_post e d1 postID uid = (Responded (Response 200 (JLikes (likes p))), d2)"
    using unlike_post_front [OF assms(1) f1 _ assms(5) sf, of "likes p"] restored
    by (simp add: d2_def p1_def)
  have ex1: "\<exists>q \<in> set (posts d1). post_id q = post_id p"
    using ex pid pid1 by (auto simp: d1_def)
  have "find (\<lambda>q. post_id q = postID) (posts d2) = Some p"
    using find_after_replace [of p "posts d1"] ex1 pid by (simp add: d2_def)
  then have third: "Post_findById e d2 postID = Inr (Some p)"
    using assms(1) by (simp add: Post_findById_def)
  from first second third show ?thesis by blast
qed

theorem like_then_unlike_restores_likes_witness:
  "findById_fault env_ok ''p1'' = None \<and> (\<forall>q. save_fault env_ok q = None) \<and>
   find (\<lambda>q. post_id q = ''p1'') (posts db1) = Some post1 \<and>
   ''c3'' \<notin> like_user ` set (likes post1) \<and> ''c3'' \<noteq> [] \<and>
   (\<exists>d1 d2.
      like_post env_ok db1 ''p1'' ''c3'' =
        (Responded (Response 200 (JLikes (\<lparr>like_user = ''c3''\<rparr> # likes post1))), d1) \<and>
      unlike_post env_ok d1 ''p1'' ''c3'' =
        (Responded (Response 200 (JLikes (likes post1))), d2) \<and>
      Post_findById env_ok d2 ''p1'' = Inr (Some post1))"
proof -
  have h1: "findById_fault env_ok ''p1'' = None"
    by (simp add: env_ok_def)
  have h2: "\<forall>q. save_fault env_ok q = None"
    by (simp add: env_ok_def)
  have h3: "find (\<lambda>q. post_id q = ''p1'') (posts db1) = Some post1"
    by (simp add: db1_def post1_def)
  have h4: "''c3'' \<notin> like_user ` set (likes post1)"
    by (simp add: post1_def)
  have h5: "''c3'' \<noteq> []" by simp
  show ?thesis
    using h1 h2 h3 h4 like_then_unlike_restores_likes [OF h1 h2 h3 h4 h5] by simp
qed

section \<open>At most one like per user\<close>

text \<open>
  C5. If every stored post has at most one like per user id, then so has every stored
  post after a like request and after an unlike request, whatever the request's
  outcome.
\<close>

theorem like_unlike_keep_likes_unique:
  "likes_unique d \<Longrightarrow>
     likes_unique (snd (like_post e d postID uid)) \<and>
     likes_unique (snd (unlike_post e d postID uid))"
  by (simp add: like_post_def unlike_post_def snd_handle
      like_post_try_unique unlike_post_try_unique)

theorem like_unlike_keep_likes_unique_witness:
  "likes_unique db1 \<and>
   snd (like_post env_ok db1 ''p1'' ''c3'') =
     db1\<lparr>posts := [post1\<lparr>likes := \<lparr>like_user = ''c3''\<rparr> # likes post1\<rparr>, post2]\<rparr> \<and>
   likes_unique (snd (like_post env_ok db1 ''p1'' ''c3'')) \<and>
   snd (unlike_post env_ok db1 ''p1'' ''a1'') =
     db1\<lparr>posts := [post1\<lparr>likes := [\<lparr>like_user = ''a1''\<rparr>]\<rparr>, post2]\<rparr> \<and>
   likes_unique (snd (unlike_post env_ok db1 ''p1'' ''a1''))"
proof -
  have h: "likes_unique db1"
    by (simp add: likes_unique_def db1_def post1_def post2_def)
  have l: "snd (like_post env_ok db1 ''p1'' ''c3'') =
     db1\<lparr>posts := [post1\<lparr>likes := \<lparr>like_user = ''c3''\<rparr> # likes post1\<rparr>, post2]\<rparr>"
    by (simp add: like_post_def like_post_try_def handle_def Post_findById_def
        save_def env_ok_def db1_def post1_def post2_def Let_def)
  have u: "snd (unlike_post env_ok db1 ''p1'' ''a1'') =
     db1\<lparr>posts := [post1\<lparr>likes := [\<lparr>like_user = ''a1''\<rparr>]\<rparr>, post2]\<rparr>"
    by (simp add: unlike_post_def unlike_post_try_def handle_def Post_findById_def
      save_def env_ok_def db1_def post1_def post2_def truthy_def indexOf_found_def
      splice1_def Let_def)
  show ?thesis
    using h l u like_unlike_keep_likes_unique [OF h, of env_ok "''p1''" "''c3''"]
      like_unlike_keep_likes_unique [OF h, of env_ok "''p1''" "''a1''"]
    by simp
qed

section \<open>Liking twice\<close>

text \<open>
  C6. After a like request of a user on a post was answered with 200 (or, more
  generally, whenever the stored post holds a like of that user and the lookup is not
  rejected), a like request by the same user on the same post is answered with 400
  and the store is unchanged, so the likes sequence has the length it had.
\<close>

theorem second_like_is_rejected:
  assumes "like_post e d0 postID uid = (Responded (Response 200 b), d) \<or>
           (findById_fault e postID = None \<and>
            (\<exists>p. find (\<lambda>q. post_id q = postID) (posts d) = Some p \<and>
                 uid \<in> like_user ` set (likes p)))"
  shows "like_post e d postID uid =
           (Responded (Response 400 (JMsg ''Post already liked'')), d)"
proof -
  have "findById_fault e postID = None \<and>
        (\<exists>p. find (\<lambda>q. post_id q = postID) (posts d) = Some p \<and>
             uid \<in> like_user ` set (likes p))"
    using assms
  proof
    assume a: "like_post e d0 postID uid = (Responded (Response 200 b), d)"
    have nf: "findById_fault e postID = None"
      using a by (auto simp: like_post_def like_post_try_def handle_def server_error_def
          Post_findById_def split: option.splits)
    obtain p where fp: "find (\<lambda>q. post_id q = postID) (posts d0) = Some p"
      using a nf by (cases "find (\<lambda>q. post_id q = postID) (posts d0)")
        (auto simp: like_post_def like_post_try_def handle_def server_error_def
          Post_findById_def)
    define p1 where "p1 = p\<lparr>likes := \<lparr>like_user = uid\<rparr> # likes p\<rparr>"
    have pid: "post_id p = postID" and pin: "p \<in> set (posts d0)"
      using find_post_id [OF fp] by simp_all
    have dd: "d = d0\<lparr>posts := map (\<lambda>q. if post_id q = postID then p1 else q) (posts d0)\<rparr>"
      using a nf fp pid
      by (auto simp: like_post_def like_post_try_def handle_def server_error_def
          Post_findById_def save_def Let_def p1_def split: if_splits option.splits)
    have "find (\<lambda>q. post_id q = postID) (posts d) = Some p1"
      using find_after_replace [of p1 "posts d0"] pin pid by (auto simp: dd p1_def)
    moreover have "uid \<in> like_user ` set (likes p1)"
      by (simp add: p1_def)
    ultimately show ?thesis using nf by blast
  next
    assume "findById_fault e postID = None \<and>
        (\<exists>p. find (\<lambda>q. post_id q = postID) (posts d) = Some p \<and>
             uid \<in> like_user ` set (likes p))"
    then show ?thesis .
  qed
  then show ?thesis
    using like_post_already by blast
qed

theorem second_like_is_rejected_witness:
  "like_post env_ok db1 ''p2'' ''c3'' =
     (Responded (Response 200 (JLikes [\<lparr>like_user = ''c3''\<rparr>])),
      db1\<lparr>posts := [post1, post2\<lparr>likes := [\<lparr>like_user = ''c3''\<rparr>]\<rparr>]\<rparr>) \<and>
   like_post env_ok (db1\<lparr>posts := [post1, post2\<lparr>likes := [\<lparr>like_user = ''c3''\<rparr>]\<rparr>]\<rparr>)
       ''p2'' ''c3'' =
     (Responded (Response 400 (JMsg ''Post already liked'')),
      db1\<lparr>posts := [post1, post2\<lparr>likes := [\<lparr>like_user = ''c3''\<rparr>]\<rparr>]\<rparr>)"
proof -
  have h: "like_post env_ok db1 ''p2'' ''c3'' =
     (Responded (Response 200 (JLikes [\<lparr>like_user = ''c3''\<rparr>])),
      db1\<lparr>posts := [post1, post2\<lparr>likes := [\<lparr>like_user = ''c3''\<rparr>]\<rparr>]\<rparr>)"
    by (simp add: like_post_def like_post_try_def handle_def Post_findById_def
        save_def env_ok_def db1_def post1_def post2_def Let_def)
  show ?thesis
    using h second_like_is_rejected [OF disjI1, OF h] by simp
qed

section \<open>Deleting a comment without authorization\<close>

text \<open>
  The handler compares the post's owner with \<open>user.id\<close> of the user document it
  fetches, not with \<open>req.user.id\<close>. When that document is stored, an acting user who
  is neither the post's owner nor the comment's author is answered with 401 and the
  store is unchanged.
\<close>

lemma delete_comment_stored_stranger:
  assumes "findById_fault e postID = None"
    and "find (\<lambda>q. post_id q = postID) (posts d) = Some p"
    and "find (\<lambda>c. comment_id c = commentId) (comments p) = Some c"
    and "user_findById_fault e uid = None"
    and "find (\<lambda>u. user_id u = uid) (users d) = Some u"
    and "uid \<noteq> post_user p"
    and "uid \<noteq> comment_user c"
  shows "delete_comment e d postID commentId uid =
           (Responded (Response 401 (JMsg ''User not authorized'')), d)"
proof -
  have "user_id u = uid"
    using assms(5) by (auto simp: find_Some_iff)
  then show ?thesis
    using findById_present [OF assms(1,2)] User_findById_present [OF assms(4,5)]
      assms(3,6,7)
    by (auto simp: delete_comment_def delete_comment_try_def handle_def Let_def)
qed

text \<open>
  C7. An acting user who is neither the post's owner nor the comment's author is to
  be answered with 401. The acting user d4 has no stored user document, owns neither
  post p1 nor its comment c1, and no lookup is rejected: \<open>User.findById\<close> gives
  \<open>null\<close>, reading \<open>user.id\<close> throws a TypeError, and the catch block, on a fault
  that is not of kind ObjectId, reads the undeclared \<open>postID\<close> and throws a
  ReferenceError. No response is sent, so no 401; the store is unchanged.
\<close>

theorem delete_comment_stranger_without_document:
  "find (\<lambda>q. post_id q = ''p1'') (posts db1) = Some post1 \<and>
   find (\<lambda>c. comment_id c = ''c1'') (comments post1) = Some (hd (comments post1)) \<and>
   ''d4'' \<noteq> post_user post1 \<and> ''d4'' \<noteq> comment_user (hd (comments post1)) \<and>
   User_findById env_ok db1 ''d4'' = Inr None \<and>
   delete_comment_try env_ok db1 ''p1'' ''c1'' ''d4'' = (Inl TypeError, db1) \<and>
   delete_comment env_ok db1 ''p1'' ''c1'' ''d4'' = (Unhandled ReferenceError, db1)"
  by (simp add: delete_comment_def delete_comment_try_def delete_comment_catch_def
      handle_def Post_findById_def User_findById_def TypeError_def env_ok_def
      db1_def post1_def post2_def alice_def bob_def carol_def Let_def)

section \<open>Creating a post\<close>

text \<open>
  C8. For an acting user with a stored user document and a non-empty text, when the
  driver rejects nothing, create-post answers 200 with a Post that is also stored; and
  whenever create-post answers 200 with a Post, that Post has the acting id as \<open>user\<close>,
  the name and avatar of the acting user's document, the supplied text, and empty
  \<open>likes\<close> and \<open>comments\<close>.
\<close>

theorem create_post_returns_snapshot:
  "(text \<noteq> [] \<and> user_findById_fault e uid = None \<and>
    find (\<lambda>u. user_id u = uid) (users d) = Some u \<and>
    save_fault e (new_Post e text (user_name u) (user_avatar u) uid) = None \<longrightarrow>
      (\<exists>p. create_post e d uid text =
              (Responded (Response 200 (JPost p)), d\<lparr>posts := posts d @ [p]\<rparr>))) \<and>
   (create_post e d uid text = (Responded (Response 200 (JPost p)), d') \<longrightarrow>
      post_user p = uid \<and> post_text p = text \<and> text \<noteq> [] \<and>
      likes p = [] \<and> comments p = [] \<and>
      (\<exists>u. find (\<lambda>u. user_id u = uid) (users d) = Some u \<and>
           post_name p = user_name u \<and> post_avatar p = user_avatar u))"
proof (rule conjI; rule impI)
  assume a: "text \<noteq> [] \<and> user_findById_fault e uid = None \<and>
    find (\<lambda>u. user_id u = uid) (users d) = Some u \<and>
    save_fault e (new_Post e text (user_name u) (user_avatar u) uid) = None"
  then have "User_findById e d uid = Inr (Some u)"
    by (simp add: User_findById_def)
  with a show "\<exists>p. create_post e d uid text =
              (Responded (Response 200 (JPost p)), d\<lparr>posts := posts d @ [p]\<rparr>)"
    by (simp add: create_post_def create_post_try_def handle_def save_new_def Let_def)
next
  assume a: "create_post e d uid text = (Responded (Response 200 (JPost p)), d')"
  then have t: "text \<noteq> []"
    by (auto simp: create_post_def split: if_splits)
  have nf: "user_findById_fault e uid = None"
    using a t by (auto simp: create_post_def create_post_try_def handle_def server_error_def
        User_findById_def split: option.splits)
  obtain u where fu: "find (\<lambda>u. user_id u = uid) (users d) = Some u"
    using a t nf by (cases "find (\<lambda>u. user_id u = uid) (users d)")
      (auto simp: create_post_def create_post_try_def handle_def server_error_def
        User_findById_def)
  have "p = new_Post e text (user_name u) (user_avatar u) uid"
    using a t nf fu
    by (auto simp: create_post_def create_post_try_def handle_def server_error_def
        User_findById_def Let_def split: sum.splits)
  then show "post_user p = uid \<and> post_text p = text \<and> text \<noteq> [] \<and>
      likes p = [] \<and> comments p = [] \<and>
      (\<exists>u. find (\<lambda>u. user_id u = uid) (users d) = Some u \<and>
           post_name p = user_name u \<and> post_avatar p = user_avatar u)"
    using t fu by (simp add: new_Post_def)
qed

theorem create_post_returns_snapshot_witness:
  "''hello'' \<noteq> [] \<and> user_findById_fault env_ok ''a1'' = None \<and>
   save_fault env_ok (new_Post env_ok ''hello'' (user_name alice) (user_avatar alice) ''a1'') = None \<and>
   create_post env_ok db1 ''a1'' ''hello'' =
     (Responded (Response 200 (JPost (new_Post env_ok ''hello'' ''Alice'' ''alice.png'' ''a1''))),
      db1\<lparr>posts := posts db1 @ [new_Post env_ok ''hello'' ''Alice'' ''alice.png'' ''a1'']\<rparr>) \<and>
   post_user (new_Post env_ok ''hello'' ''Alice'' ''alice.png'' ''a1'') = ''a1'' \<and>
   post_text (new_Post env_ok ''hello'' ''Alice'' ''alice.png'' ''a1'') = ''hello'' \<and>
   likes (new_Post env_ok ''hello'' ''Alice'' ''alice.png'' ''a1'') = [] \<and>
   comments (new_Post env_ok ''hello'' ''Alice'' ''alice.png'' ''a1'') = [] \<and>
   find (\<lambda>u. user_id u = ''a1'') (users db1) = Some alice \<and>
   post_name (new_Post env_ok ''hello'' ''Alice'' ''alice.png'' ''a1'') = user_name alice \<and>
   post_avatar (new_Post env_ok ''hello'' ''Alice'' ''alice.png'' ''a1'') = user_avatar alice"
proof -
  have h: "create_post env_ok db1 ''a1'' ''hello'' =
     (Responded (Response 200 (JPost (new_Post env_ok ''hello'' ''Alice'' ''alice.png'' ''a1''))),
      db1\<lparr>posts := posts db1 @ [new_Post env_ok ''hello'' ''Alice'' ''alice.png'' ''a1'']\<rparr>)"
    by (simp add: create_post_def create_post_try_def handle_def User_findById_def
        save_new_def env_ok_def db1_def alice_def Let_def)
  have f: "find (\<lambda>u. user_id u = ''a1'') (users db1) = Some alice"
    by (simp add: db1_def alice_def)
  have g: "''hello'' \<noteq> [] \<and> user_findById_fault env_ok ''a1'' = None \<and>
    save_fault env_ok (new_Post env_ok ''hello'' (user_name alice) (user_avatar alice) ''a1'') = None"
    by (simp add: env_ok_def)
  show ?thesis
    using g h f create_post_returns_snapshot [of "''hello''" env_ok "''a1''" db1 alice
        "new_Post env_ok ''hello'' ''Alice'' ''alice.png'' ''a1''"
        "db1\<lparr>posts := posts db1 @ [new_Post env_ok ''hello'' ''Alice'' ''alice.png'' ''a1'']\<rparr>"]
    by (simp add: alice_def)
qed

section \<open>Listing all posts\<close>

text \<open>
  C9. When the query is not rejected, list-all-posts answers 200 with all stored posts,
  each exactly as often as it is stored, in an order that is non-increasing in \<open>date\<close>;
  the store is unchanged.
\<close>

theorem list_all_posts_sorted_complete:
  assumes "find_fault e None = None"
  shows "\<exists>ps. list_all_posts e d = (Responded (Response 200 (JPosts ps)), d) \<and>
              mset ps = mset (posts d) \<and>
              sorted_wrt (\<lambda>a b. post_date b \<le> post_date a) ps"
proof -
  have "list_all_posts e d =
          (Responded (Response 200 (JPosts (sort_date_desc (posts d)))), d)"
    using assms by (simp add: list_all_posts_def list_all_posts_try_def handle_def Post_find_def)
  moreover have "mset (sort_date_desc (posts d)) = mset (posts d)"
    by (simp add: sort_date_desc_def)
  ultimately show ?thesis
    using sort_date_desc_sorted by blast
qed

theorem list_all_posts_sorted_complete_witness:
  "find_fault env_ok None = None \<and>
   list_all_posts env_ok db1 = (Responded (Response 200 (JPosts [post2, post1])), db1) \<and>
   (\<exists>ps. list_all_posts env_ok db1 = (Responded (Response 200 (JPosts ps)), db1) \<and>
         mset ps = mset (posts db1) \<and>
         sorted_wrt (\<lambda>a b. post_date b \<le> post_date a) ps)"
proof -
  have h: "find_fault env_ok None = None"
    by (simp add: env_ok_def)
  have v: "list_all_posts env_ok db1 = (Responded (Response 200 (JPosts [post2, post1])), db1)"
    by (simp add: list_all_posts_def list_all_posts_try_def handle_def Post_find_def
        sort_date_desc_def env_ok_def db1_def post1_def post2_def)
  show ?thesis
    using h v list_all_posts_sorted_complete [OF h, of db1] by simp
qed

section \<open>Commenting on a missing post\<close>

text \<open>
  C10. The add-comment handler has no test for a missing post. With a non-empty text
  and a post id that the driver accepts and no stored post has, the try block ends in
  a fault whatever the user lookup gives, the response is the generic 500, and the
  store is unchanged: no comment is persisted.
\<close>

theorem add_comment_missing_post_is_500:
  assumes "text \<noteq> []"
    and "findById_fault e postID = None"
    and "postID \<notin> post_id ` set (posts d)"
  shows "(\<exists>err. add_comment_try e d postID uid text = (Inl err, d)) \<and>
         add_comment e d postID uid text =
           (Responded (Response 500 (Text ''Server Error'')), d)"
proof -
  have t: "\<exists>err. add_comment_try e d postID uid text = (Inl err, d)"
    using findById_missing [OF assms(2,3)]
    by (simp add: add_comment_try_def split: sum.splits option.splits)
  with assms(1) show ?thesis
    by (auto simp: add_comment_def handle_def server_error_def)
qed

theorem add_comment_missing_post_is_500_witness:
  "''nice'' \<noteq> [] \<and> findById_fault env_ok ''p7'' = None \<and>
   ''p7'' \<notin> post_id ` set (posts db1) \<and>
   add_comment env_ok db1 ''p7'' ''a1'' ''nice'' =
     (Responded (Response 500 (Text ''Server Error'')), db1)"
proof -
  have h0: "''nice'' \<noteq> []" by simp
  have h1: "findById_fault env_ok ''p7'' = None"
    by (simp add: env_ok_def)
  have h2: "''p7'' \<notin> post_id ` set (posts db1)"
    by (simp add: db1_def post1_def post2_def)
  show ?thesis
    using h1 h2 add_comment_missing_post_is_500 [OF h0 h1 h2, of "''a1''"] by simp
qed

end
